theory Spec2Isabelle
  imports Main
begin

section \<open>The GPS relay service: the location manager controller\<close>

text \<open>
  A shallow embedding of \<^verbatim>\<open>src/andygmpub/gpsExtraService/src/location_manager.c\<close>.
  The three file-scope structs are records, collected in one record \<open>world\<close> that every
  function receives and returns. The platform (location manager, message port, runtime
  info, ecore) is outside the repository: every call the code makes to it is appended to
  the field \<open>trace\<close>, and what the platform answers during one handler invocation is read
  from a record \<open>env\<close>. Calls to \<^verbatim>\<open>dlog_print\<close> are left out, since they change
  nothing the code reads; the one in \<^verbatim>\<open>logNMEA\<close> whose argument is ill-typed is
  kept as the end of the process. A \<^verbatim>\<open>time_t\<close> is a 64-bit signed integer, held as an \<open>int\<close>
  between \<open>- 2^63\<close> and \<open>2^63 - 1\<close>; the difference of two of them is computed
  modulo \<open>2^64\<close> (\<open>time_t_sub\<close>), as the compiled code does where C leaves the
  overflow undefined. Where the code runs into undefined behaviour that ends the process
  (\<^verbatim>\<open>logNMEA\<close>), the field \<open>crashed\<close> is set and no later event is handled.
\<close>

subsection \<open>Constants\<close>

definition POSITION_UPDATE_INTERVAL :: int where
  "POSITION_UPDATE_INTERVAL = 3"

definition SATELLITE_UPDATE_INTERVAL :: int where
  "SATELLITE_UPDATE_INTERVAL = 10"

definition CHAR_BUFF_SIZE :: nat where
  "CHAR_BUFF_SIZE = 20"

definition MAX_TIME_DIFF :: int where
  "MAX_TIME_DIFF = 30"

definition MESSAGE_TYPE_POSITION_UPDATE :: string where
  "MESSAGE_TYPE_POSITION_UPDATE = ''POSITION_UPDATE''"

definition MESSAGE_TYPE_SATELLITES_UPDATE :: string where
  "MESSAGE_TYPE_SATELLITES_UPDATE = ''SATELLITES_UPDATE''"

text \<open>The success codes of the platform (\<^verbatim>\<open>TIZEN_ERROR_NONE\<close>) and the GPS status
  \<^verbatim>\<open>RUNTIME_INFO_GPS_STATUS_CONNECTED\<close> of \<^verbatim>\<open>runtime_info.h\<close>.\<close>

definition LOCATIONS_ERROR_NONE :: int where
  "LOCATIONS_ERROR_NONE = 0"

definition MESSAGE_PORT_ERROR_NONE :: int where
  "MESSAGE_PORT_ERROR_NONE = 0"

definition RUNTIME_INFO_GPS_STATUS_CONNECTED :: int where
  "RUNTIME_INFO_GPS_STATUS_CONNECTED = 2"

definition ECORE_CALLBACK_CANCEL :: bool where
  "ECORE_CALLBACK_CANCEL = False"

definition ECORE_CALLBACK_RENEW :: bool where
  "ECORE_CALLBACK_RENEW = True"

text \<open>Subtraction of two \<^verbatim>\<open>time_t\<close> values: the difference, reduced to the range
  of a 64-bit signed integer.\<close>

definition time_t_wrap :: "int \<Rightarrow> int" where
  "time_t_wrap x = (x + 2 ^ 63) mod 2 ^ 64 - 2 ^ 63"

definition time_t_sub :: "int \<Rightarrow> int \<Rightarrow> int" where
  "time_t_sub a b = time_t_wrap (a - b)"

subsection \<open>Data\<close>

text \<open>A \<^verbatim>\<open>double\<close> is the value it denotes: \<open>Finite s m e\<close> is \<open>(-1)^s * m * 2^e\<close>.\<close>

datatype double = Finite bool nat int | Infinite bool | NaN bool

datatype location_service_state_e =
    LOCATIONS_SERVICE_DISABLED
  | LOCATIONS_SERVICE_ENABLED
  | LOCATIONS_SERVICE_OTHER int

text \<open>\<^verbatim>\<open>location_manager_h\<close>: an opaque pointer, \<open>None\<close> for \<^verbatim>\<open>NULL\<close>.\<close>

type_synonym location_manager_h = "nat option"

text \<open>\<^verbatim>\<open>bundle\<close>: the key-value pairs in the order they were added.\<close>

type_synonym "bundle" = "(string \<times> string) list"

record location_data =
  gpsEnabled :: bool
  satEnabled :: bool
  manager :: location_manager_h
  state :: location_service_state_e
  connected :: bool
  data_sent :: bool

record gps_data =
  altitude :: double
  latitude :: double
  longitude :: double
  climb :: double
  direction :: double
  speed :: double
  horizontal :: double
  vertical :: double
  level :: int
  timestamp :: int

text \<open>The field \<^verbatim>\<open>timestamp\<close> of \<^verbatim>\<open>s_sat_data\<close> is \<open>sat_timestamp\<close> here.\<close>

record sat_data =
  active :: int
  inview :: int
  sat_timestamp :: int

datatype runtime_info_key_e =
    RUNTIME_INFO_KEY_LOCATION_SERVICE_ENABLED
  | RUNTIME_INFO_KEY_GPS_STATUS
  | RUNTIME_INFO_KEY_WIFI_HOTSPOT_ENABLED
  | RUNTIME_INFO_KEY_BLUETOOTH_ENABLED

text \<open>The calls to the platform that the code makes, with the arguments that vary.\<close>

datatype call =
    Runtime_info_get_value runtime_info_key_e
  | Location_manager_create
  | Location_manager_set_service_state_changed_cb location_manager_h
  | Location_manager_unset_service_state_changed_cb location_manager_h
  | Location_manager_start location_manager_h
  | Location_manager_stop location_manager_h
  | Location_manager_destroy location_manager_h
  | Location_manager_set_position_updated_cb location_manager_h int
  | Location_manager_unset_position_updated_cb location_manager_h
  | Gps_status_set_satellite_updated_cb location_manager_h int
  | Gps_status_unset_satellite_updated_cb location_manager_h
  | Location_manager_get_location location_manager_h
  | Location_manager_get_last_location location_manager_h
  | Gps_status_get_satellite location_manager_h
  | Gps_status_get_last_satellite location_manager_h
  | Gps_status_foreach_satellites_in_view location_manager_h
  | Gps_status_get_nmea location_manager_h
  | Message_port_check_remote_port
  | Message_port_send_message "bundle"
  | Ecore_timer_add

record world =
  s_location_data :: location_data
  s_gps_data :: gps_data
  s_sat_data :: sat_data
  trace :: "call list"
  timers :: nat
  crashed :: bool

text \<open>The initial values of the three structs, no call made, no timer pending, the
  process alive.\<close>

definition s_location_data_init :: location_data where
  "s_location_data_init =
     \<lparr>gpsEnabled = False, satEnabled = False, manager = None,
      state = LOCATIONS_SERVICE_DISABLED, connected = False, data_sent = True\<rparr>"

definition s_gps_data_init :: gps_data where
  "s_gps_data_init =
     \<lparr>altitude = Finite False 0 0, latitude = Finite False 0 0,
      longitude = Finite False 0 0, climb = Finite False 0 0,
      direction = Finite False 0 0, speed = Finite False 0 0,
      horizontal = Finite False 0 0, vertical = Finite False 0 0,
      level = 0, timestamp = 0\<rparr>"

definition s_sat_data_init :: sat_data where
  "s_sat_data_init = \<lparr>active = 0, inview = 0, sat_timestamp = 0\<rparr>"

definition world_init :: world where
  "world_init =
     \<lparr>s_location_data = s_location_data_init, s_gps_data = s_gps_data_init,
      s_sat_data = s_sat_data_init, trace = [], timers = 0, crashed = False\<rparr>"

text \<open>
  What the platform answers during one invocation of a handler. A \<open>_ret\<close> field is the
  code a call returns; a \<open>_val\<close> field is what the call writes through its
  out-parameters when it succeeds (on failure the model leaves them as they were).
  \<open>runtime_gps_status\<close> is the content of the local \<^verbatim>\<open>gpsStatus\<close> of
  \<^verbatim>\<open>gpsConnected\<close> after the query (indeterminate when the query fails), \<open>now\<close> what
  \<^verbatim>\<open>time\<close> returns, \<open>sat_bundle_created\<close>, \<open>pos_bundle_created\<close> whether
  \<^verbatim>\<open>bundle_create\<close> returns a bundle in \<^verbatim>\<open>sendSatellite\<close> and in
  \<^verbatim>\<open>sendPosition\<close>, and \<open>nmea_malloc_ok\<close> whether \<^verbatim>\<open>malloc\<close> returns a
  buffer in \<^verbatim>\<open>logNMEA\<close>.
\<close>

record env =
  runtime_gps_status :: int
  create_ret :: int
  create_val :: nat
  set_service_state_changed_cb_ret :: int
  check_remote_port_ret :: int
  check_remote_port_val :: bool
  set_position_updated_cb_ret :: int
  set_satellite_updated_cb_ret :: int
  get_location_ret :: int
  get_location_val :: gps_data
  get_last_location_ret :: int
  get_last_location_val :: gps_data
  get_satellite_ret :: int
  get_satellite_val :: sat_data
  get_last_satellite_ret :: int
  get_last_satellite_val :: sat_data
  now :: int
  sat_bundle_created :: bool
  sat_send_ret :: int
  pos_bundle_created :: bool
  pos_send_ret :: int
  nmea_malloc_ok :: bool
  get_nmea_ret :: int

definition called :: "call \<Rightarrow> world \<Rightarrow> world" where
  "called c w = w\<lparr>trace := trace w @ [c]\<rparr>"

subsection \<open>The C library: \<^verbatim>\<open>snprintf\<close> with \<^verbatim>\<open>%f\<close> and \<^verbatim>\<open>%d\<close>\<close>

definition digit_char :: "nat \<Rightarrow> char" where
  "digit_char d = ''0123456789'' ! (d mod 10)"

fun dec :: "nat \<Rightarrow> string" where
  "dec n = (if n < 10 then [digit_char n] else dec (n div 10) @ [digit_char (n mod 10)])"

declare dec.simps [simp del]

text \<open>The magnitude times \<open>10^6\<close>, rounded to the nearest integer, ties to even.\<close>

definition round_micro :: "nat \<Rightarrow> int \<Rightarrow> nat" where
  "round_micro m e =
     (if 0 \<le> e then m * 2 ^ nat e * 1000000
      else let num = m * 1000000; den = 2 ^ nat (- e);
               q = num div den; r = num mod den
           in if den < 2 * r \<or> (2 * r = den \<and> odd q) then q + 1 else q)"

definition format_f :: "double \<Rightarrow> string" where
  "format_f x =
     (case x of
        Finite s m e \<Rightarrow>
          (let r = round_micro m e; frac = dec (r mod 1000000)
           in (if s then ''-'' else '''') @ dec (r div 1000000) @ ''.''
              @ replicate (6 - length frac) (CHR ''0'') @ frac)
      | Infinite s \<Rightarrow> (if s then ''-inf'' else ''inf'')
      | NaN s \<Rightarrow> (if s then ''-nan'' else ''nan''))"

definition format_d :: "int \<Rightarrow> string" where
  "format_d i = (if i < 0 then ''-'' @ dec (nat (- i)) else dec (nat i))"

text \<open>\<^verbatim>\<open>snprintf( buf, CHAR_BUFF_SIZE, ... )\<close> keeps at most \<open>CHAR_BUFF_SIZE - 1\<close>
  characters.\<close>

definition snprintf_f :: "double \<Rightarrow> string" where
  "snprintf_f x = take (CHAR_BUFF_SIZE - 1) (format_f x)"

definition snprintf_d :: "int \<Rightarrow> string" where
  "snprintf_d i = take (CHAR_BUFF_SIZE - 1) (format_d i)"

subsection \<open>Bundles\<close>

text \<open>\<^verbatim>\<open>bundle_add_str\<close> refuses a key that is already there; the code ignores the
  code it returns.\<close>

definition bundle_add_str :: "bundle \<Rightarrow> string \<Rightarrow> string \<Rightarrow> bundle" where
  "bundle_add_str b k v = (if k \<in> fst ` set b then b else b @ [(k, v)])"

definition bundle_get_str :: "bundle \<Rightarrow> string \<Rightarrow> string option" where
  "bundle_get_str b k = map_of b k"

subsection \<open>Message Sender\<close>

text \<open>\<^verbatim>\<open>sendMessage( b )\<close>: \<open>b\<close> is \<open>None\<close> for a \<^verbatim>\<open>NULL\<close> bundle, \<open>send_ret\<close> is what
  \<^verbatim>\<open>message_port_send_message\<close> returns if it is called.\<close>

definition sendMessage :: "int \<Rightarrow> bundle option \<Rightarrow> world \<Rightarrow> bool \<times> world" where
  "sendMessage send_ret b w =
     (if \<not> connected (s_location_data w) then (True, w)
      else case b of
             Some p \<Rightarrow> (send_ret = MESSAGE_PORT_ERROR_NONE, called (Message_port_send_message p) w)
           | None \<Rightarrow> (False, w))"

text \<open>The bundle that \<^verbatim>\<open>sendPosition\<close> fills: the four \<^verbatim>\<open>bundle_add_str\<close> calls
  of the source, in its order and with its arguments.\<close>

definition position_bundle :: "gps_data \<Rightarrow> bundle" where
  "position_bundle g =
     (let latitude_str = snprintf_f (latitude g);
          longitude_str = snprintf_f (longitude g);
          altitude_str = snprintf_f (altitude g);
          b = [];
          b = bundle_add_str b ''msg_type'' MESSAGE_TYPE_POSITION_UPDATE;
          b = bundle_add_str b ''latitude'' latitude_str;
          b = bundle_add_str b ''longitude'' longitude_str;
          b = bundle_add_str b ''altitude'' longitude_str
      in b)"

definition sendPosition :: "env \<Rightarrow> world \<Rightarrow> bool \<times> world" where
  "sendPosition e w =
     (if pos_bundle_created e
      then sendMessage (pos_send_ret e) (Some (position_bundle (s_gps_data w))) w
      else (False, w))"

definition satellite_bundle :: "sat_data \<Rightarrow> bundle" where
  "satellite_bundle s =
     (let active_str = snprintf_d (active s);
          inview_str = snprintf_d (inview s);
          b = [];
          b = bundle_add_str b ''msg_type'' MESSAGE_TYPE_SATELLITES_UPDATE;
          b = bundle_add_str b ''active'' active_str;
          b = bundle_add_str b ''inview'' inview_str
      in b)"

definition sendSatellite :: "env \<Rightarrow> world \<Rightarrow> bool \<times> world" where
  "sendSatellite e w =
     (if sat_bundle_created e
      then sendMessage (sat_send_ret e) (Some (satellite_bundle (s_sat_data w))) w
      else (False, w))"

subsection \<open>The platform calls that write to the structs\<close>

text \<open>Each appends itself to the trace and returns the code of \<open>env\<close>; the
  out-parameters (fields of the structs in every call of the source) are written on
  success only.\<close>

definition location_manager_create :: "env \<Rightarrow> world \<Rightarrow> int \<times> world" where
  "location_manager_create e w =
     (let w = called Location_manager_create w
      in if create_ret e = LOCATIONS_ERROR_NONE
         then (create_ret e,
               w\<lparr>s_location_data := (s_location_data w)\<lparr>manager := Some (create_val e)\<rparr>\<rparr>)
         else (create_ret e, w))"

definition message_port_check_remote_port :: "env \<Rightarrow> world \<Rightarrow> int \<times> world" where
  "message_port_check_remote_port e w =
     (let w = called Message_port_check_remote_port w
      in if check_remote_port_ret e = MESSAGE_PORT_ERROR_NONE
         then (check_remote_port_ret e,
               w\<lparr>s_location_data := (s_location_data w)\<lparr>connected := check_remote_port_val e\<rparr>\<rparr>)
         else (check_remote_port_ret e, w))"

definition location_manager_get_location :: "env \<Rightarrow> world \<Rightarrow> int \<times> world" where
  "location_manager_get_location e w =
     (let w = called (Location_manager_get_location (manager (s_location_data w))) w
      in if get_location_ret e = LOCATIONS_ERROR_NONE
         then (get_location_ret e, w\<lparr>s_gps_data := get_location_val e\<rparr>)
         else (get_location_ret e, w))"

definition location_manager_get_last_location :: "env \<Rightarrow> world \<Rightarrow> int \<times> world" where
  "location_manager_get_last_location e w =
     (let w = called (Location_manager_get_last_location (manager (s_location_data w))) w
      in if get_last_location_ret e = LOCATIONS_ERROR_NONE
         then (get_last_location_ret e, w\<lparr>s_gps_data := get_last_location_val e\<rparr>)
         else (get_last_location_ret e, w))"

definition gps_status_get_satellite :: "env \<Rightarrow> world \<Rightarrow> int \<times> world" where
  "gps_status_get_satellite e w =
     (let w = called (Gps_status_get_satellite (manager (s_location_data w))) w
      in if get_satellite_ret e = LOCATIONS_ERROR_NONE
         then (get_satellite_ret e, w\<lparr>s_sat_data := get_satellite_val e\<rparr>)
         else (get_satellite_ret e, w))"

definition gps_status_get_last_satellite :: "env \<Rightarrow> world \<Rightarrow> int \<times> world" where
  "gps_status_get_last_satellite e w =
     (let w = called (Gps_status_get_last_satellite (manager (s_location_data w))) w
      in if get_last_satellite_ret e = LOCATIONS_ERROR_NONE
         then (get_last_satellite_ret e, w\<lparr>s_sat_data := get_last_satellite_val e\<rparr>)
         else (get_last_satellite_ret e, w))"

text \<open>\<^verbatim>\<open>ecore_timer_add( SEND_DATA_INTERVAL, onTimerSend, NULL )\<close>: one more pending
  timer. The code drops the handle that the call returns.\<close>

definition ecore_timer_add :: "world \<Rightarrow> world" where
  "ecore_timer_add w = (called Ecore_timer_add w)\<lparr>timers := Suc (timers w)\<rparr>"

subsection \<open>Connectivity Probe\<close>

definition gpsConnected :: "env \<Rightarrow> world \<Rightarrow> bool \<times> world" where
  "gpsConnected e w =
     (let w = called (Runtime_info_get_value RUNTIME_INFO_KEY_LOCATION_SERVICE_ENABLED) w;
          w = called (Runtime_info_get_value RUNTIME_INFO_KEY_GPS_STATUS) w;
          gpsStatus = runtime_gps_status e;
          w = called (Runtime_info_get_value RUNTIME_INFO_KEY_WIFI_HOTSPOT_ENABLED) w;
          w = called (Runtime_info_get_value RUNTIME_INFO_KEY_BLUETOOTH_ENABLED) w
      in (gpsStatus = RUNTIME_INFO_GPS_STATUS_CONNECTED, w))"

definition checkRemotePort :: "env \<Rightarrow> world \<Rightarrow> world" where
  "checkRemotePort e w = snd (message_port_check_remote_port e w)"

subsection \<open>Subscription Manager\<close>

definition disableGPS :: "world \<Rightarrow> world" where
  "disableGPS w =
     (let w = (if manager (s_location_data w) \<noteq> None
               then called (Location_manager_unset_position_updated_cb
                              (manager (s_location_data w))) w
               else w)
      in w\<lparr>s_location_data := (s_location_data w)\<lparr>gpsEnabled := False\<rparr>\<rparr>)"

definition disableSat :: "world \<Rightarrow> world" where
  "disableSat w =
     (let w = (if manager (s_location_data w) \<noteq> None
               then called (Gps_status_unset_satellite_updated_cb
                              (manager (s_location_data w))) w
               else w)
      in w\<lparr>s_location_data := (s_location_data w)\<lparr>satEnabled := False\<rparr>\<rparr>)"

definition initData :: "env \<Rightarrow> world \<Rightarrow> bool \<times> world" where
  "initData e w =
     (let (ret, w) = location_manager_get_last_location e w;
          cur_timestamp = now e
      in if time_t_sub cur_timestamp (timestamp (s_gps_data w)) > MAX_TIME_DIFF then (False, w)
         else let (ret, w) = gps_status_get_last_satellite e w;
                  w = (if inview (s_sat_data w) > 0
                       then called (Gps_status_foreach_satellites_in_view
                                      (manager (s_location_data w))) w
                       else w)
              in (True, w))"

definition initDataSend :: "env \<Rightarrow> world \<Rightarrow> bool \<times> world" where
  "initDataSend e w =
     (let (ok, w) = initData e w
      in if \<not> ok then (False, w)
         else let (sat_sent, w) = sendSatellite e w
              in if \<not> sat_sent then (False, w)
                 else let (pos_sent, w) = sendPosition e w
                      in if \<not> pos_sent then (False, w)
                         else (True, w\<lparr>s_location_data :=
                                          (s_location_data w)\<lparr>data_sent := True\<rparr>\<rparr>))"

definition enableGPS :: "env \<Rightarrow> world \<Rightarrow> bool \<times> world" where
  "enableGPS e w =
     (if gpsEnabled (s_location_data w) then (True, w)
      else let w = called (Location_manager_set_position_updated_cb
                             (manager (s_location_data w)) POSITION_UPDATE_INTERVAL) w;
               ret = set_position_updated_cb_ret e
           in if ret \<noteq> LOCATIONS_ERROR_NONE then (False, disableGPS w)
              else let (sent, w) = initDataSend e w;
                       w = (if \<not> sent then ecore_timer_add w else w)
                   in (True, w\<lparr>s_location_data := (s_location_data w)\<lparr>gpsEnabled := True\<rparr>\<rparr>))"

definition enableSat :: "env \<Rightarrow> world \<Rightarrow> bool \<times> world" where
  "enableSat e w =
     (if satEnabled (s_location_data w) then (True, w)
      else let w = called (Gps_status_set_satellite_updated_cb
                             (manager (s_location_data w)) SATELLITE_UPDATE_INTERVAL) w;
               ret = set_satellite_updated_cb_ret e
           in if ret \<noteq> LOCATIONS_ERROR_NONE then (False, disableSat w)
              else (True, w\<lparr>s_location_data := (s_location_data w)\<lparr>satEnabled := True\<rparr>\<rparr>))"

text \<open>
  \<^verbatim>\<open>logNMEA\<close>: one pass of the loop for each sample left. Without a buffer,
  \<^verbatim>\<open>memset\<close> writes through \<^verbatim>\<open>NULL\<close>. When \<^verbatim>\<open>gps_status_get_nmea\<close>
  succeeds, the code hands \<^verbatim>\<open>*nmea\<close>, a \<^verbatim>\<open>char\<close>, to \<^verbatim>\<open>dlog_print\<close> for
  \<^verbatim>\<open>%s\<close>. Both are undefined behaviour and end the process here. When the query
  fails the error is logged and the loop goes on.
\<close>

fun logNMEA_loop :: "env \<Rightarrow> nat \<Rightarrow> world \<Rightarrow> world" where
  "logNMEA_loop e 0 w = w"
| "logNMEA_loop e (Suc n) w =
     (if \<not> nmea_malloc_ok e then w\<lparr>crashed := True\<rparr>
      else let w = called (Gps_status_get_nmea (manager (s_location_data w))) w;
               ret = get_nmea_ret e
           in if ret = LOCATIONS_ERROR_NONE then w\<lparr>crashed := True\<rparr>
              else logNMEA_loop e n w)"

definition logNMEA :: "env \<Rightarrow> int \<Rightarrow> world \<Rightarrow> world" where
  "logNMEA e samples w = logNMEA_loop e (nat samples) w"

subsection \<open>Service Lifecycle Controller\<close>

definition locationFinalize :: "world \<Rightarrow> world" where
  "locationFinalize w =
     (let w = disableSat w;
          w = disableGPS w;
          w = (if manager (s_location_data w) \<noteq> None
               then let m = manager (s_location_data w);
                        w = called (Location_manager_unset_service_state_changed_cb m) w;
                        w = called (Location_manager_stop m) w;
                        w = called (Location_manager_destroy m) w
                    in w
               else w)
      in w\<lparr>s_location_data := (s_location_data w)\<lparr>manager := None\<rparr>\<rparr>)"

definition locationStop :: "world \<Rightarrow> world" where
  "locationStop w = locationFinalize w"

definition locationInitialize :: "env \<Rightarrow> world \<Rightarrow> bool \<times> world" where
  "locationInitialize e w =
     (let (c, w) = gpsConnected e w;
          (ret, w) = location_manager_create e w
      in if ret \<noteq> LOCATIONS_ERROR_NONE then (False, w)
         else let w = called (Location_manager_set_service_state_changed_cb
                                (manager (s_location_data w))) w;
                  ret = set_service_state_changed_cb_ret e
              in if ret \<noteq> LOCATIONS_ERROR_NONE then (False, locationFinalize w)
                 else let w = called (Location_manager_start (manager (s_location_data w))) w;
                          w = checkRemotePort e w
                      in (True, w))"

subsection \<open>The callbacks\<close>

definition onStateChange :: "env \<Rightarrow> location_service_state_e \<Rightarrow> world \<Rightarrow> world" where
  "onStateChange e st w =
     (let w = w\<lparr>s_location_data := (s_location_data w)\<lparr>state := st\<rparr>\<rparr>
      in if st = LOCATIONS_SERVICE_ENABLED
         then let (en, w) = enableGPS e w;
                  (c, w) = gpsConnected e w;
                  w = (if c then snd (enableSat e w) else w);
                  (ret, w) = location_manager_get_location e w;
                  (ret, w) = gps_status_get_satellite e w;
                  w = logNMEA e 1 w
              in w
         else if st = LOCATIONS_SERVICE_DISABLED
         then let w = disableSat w;
                  w = disableGPS w
              in w
         else w)"

definition onPositionChange ::
  "env \<Rightarrow> double \<Rightarrow> double \<Rightarrow> double \<Rightarrow> int \<Rightarrow> world \<Rightarrow> world" where
  "onPositionChange e lat lon alt ts w =
     (let w = w\<lparr>s_gps_data := (s_gps_data w)\<lparr>latitude := lat, longitude := lon,
                                               altitude := alt, timestamp := ts\<rparr>\<rparr>;
          curr_timestamp = now e;
          (c, w) = gpsConnected e w;
          w = (if c then snd (enableSat e w) else w)
      in if data_sent (s_location_data w) \<and> time_t_sub curr_timestamp ts < MAX_TIME_DIFF
         then snd (sendPosition e w)
         else w)"

definition onSatelliteChange :: "env \<Rightarrow> int \<Rightarrow> int \<Rightarrow> int \<Rightarrow> world \<Rightarrow> world" where
  "onSatelliteChange e num_active num_inview ts w =
     (let w = w\<lparr>s_sat_data := (s_sat_data w)\<lparr>active := num_active, inview := num_inview,
                                               sat_timestamp := ts\<rparr>\<rparr>;
          w = (if num_inview > 0
               then called (Gps_status_foreach_satellites_in_view
                              (manager (s_location_data w))) w
               else w)
      in if data_sent (s_location_data w) then snd (sendSatellite e w) else w)"

definition onTimerSend :: "env \<Rightarrow> world \<Rightarrow> bool \<times> world" where
  "onTimerSend e w =
     (let (sent, w) = initDataSend e w
      in if sent then (ECORE_CALLBACK_CANCEL, w) else (ECORE_CALLBACK_RENEW, w))"

subsection \<open>The event loop\<close>

text \<open>
  What can happen to the service: the three public functions, the three callbacks it
  registers with the provider, and the expiry of a timer. Ecore deletes a timer whose
  callback returns \<^verbatim>\<open>ECORE_CALLBACK_CANCEL\<close> and keeps one whose callback returns
  \<^verbatim>\<open>ECORE_CALLBACK_RENEW\<close>; without a pending timer nothing expires. A process that
  has crashed handles no further event.
\<close>

datatype event =
    LocationInitialize
  | LocationStop
  | LocationFinalize
  | StateChange location_service_state_e
  | PositionChange double double double int
  | SatelliteChange int int int
  | TimerSend

fun fire :: "env \<Rightarrow> event \<Rightarrow> world \<Rightarrow> world" where
  "fire e LocationInitialize w = snd (locationInitialize e w)"
| "fire e LocationStop w = locationStop w"
| "fire e LocationFinalize w = locationFinalize w"
| "fire e (StateChange st) w = onStateChange e st w"
| "fire e (PositionChange lat lon alt ts) w = onPositionChange e lat lon alt ts w"
| "fire e (SatelliteChange num_active num_inview ts) w =
     onSatelliteChange e num_active num_inview ts w"
| "fire e TimerSend w =
     (if timers w = 0 then w
      else let (r, w) = onTimerSend e w
           in if r = ECORE_CALLBACK_CANCEL then w\<lparr>timers := timers w - 1\<rparr> else w)"

fun run :: "(env \<times> event) list \<Rightarrow> world \<Rightarrow> world" where
  "run [] w = w"
| "run ((e, ev) # evs) w = (if crashed w then w else run evs (fire e ev w))"

subsection \<open>Observations on a trace\<close>

text \<open>The payloads handed to \<^verbatim>\<open>message_port_send_message\<close> so far, oldest first, and
  the number of calls of \<^verbatim>\<open>location_manager_set_position_updated_cb\<close> so far.\<close>

fun sent_of :: "call \<Rightarrow> bundle list" where
  "sent_of (Message_port_send_message b) = [b]"
| "sent_of _ = []"

definition messages :: "world \<Rightarrow> bundle list" where
  "messages w = concat (map sent_of (trace w))"

fun position_cb_of :: "call \<Rightarrow> nat" where
  "position_cb_of (Location_manager_set_position_updated_cb m i) = 1"
| "position_cb_of _ = 0"

definition position_cb_calls :: "world \<Rightarrow> nat" where
  "position_cb_calls w = sum_list (map position_cb_of (trace w))"

subsection \<open>Concrete platforms, readings and scenarios\<close>

text \<open>A platform on which every call succeeds but the NMEA query (whose success ends the
  process): the sensor is connected, the peer's port exists, the provider hands out
  handle 1, the clock reads 1000 and the last known location is 10 seconds old.\<close>

definition env_ok :: env where
  "env_ok =
     \<lparr>runtime_gps_status = 2, create_ret = 0, create_val = 1,
      set_service_state_changed_cb_ret = 0,
      check_remote_port_ret = 0, check_remote_port_val = True,
      set_position_updated_cb_ret = 0, set_satellite_updated_cb_ret = 0,
      get_location_ret = 0, get_location_val = s_gps_data_init\<lparr>timestamp := 990\<rparr>,
      get_last_location_ret = 0, get_last_location_val = s_gps_data_init\<lparr>timestamp := 990\<rparr>,
      get_satellite_ret = 0, get_satellite_val = s_sat_data_init,
      get_last_satellite_ret = 0, get_last_satellite_val = s_sat_data_init,
      now = 1000, sat_bundle_created = True, sat_send_ret = 0,
      pos_bundle_created = True, pos_send_ret = 0,
      nmea_malloc_ok = True, get_nmea_ret = - 22\<rparr>"

text \<open>The same platform with a last known location that is 100 seconds old; with a
  provider that refuses the position-update callback, or the state-change callback
  (\<^verbatim>\<open>LOCATIONS_ERROR_INVALID_PARAMETER\<close> is -22); and without memory for the position
  bundle.\<close>

definition env_stale :: env where
  "env_stale = env_ok\<lparr>get_last_location_val := s_gps_data_init\<lparr>timestamp := 900\<rparr>\<rparr>"

text \<open>The same platform with a last known location stamped \<^verbatim>\<open>LONG_MIN\<close>, the least
  \<^verbatim>\<open>time_t\<close>.\<close>

definition env_long_min :: env where
  "env_long_min =
     env_ok\<lparr>get_last_location_val := s_gps_data_init\<lparr>timestamp := - (2 ^ 63)\<rparr>\<rparr>"

definition env_no_position_cb :: env where
  "env_no_position_cb = env_ok\<lparr>set_position_updated_cb_ret := - 22\<rparr>"

definition env_no_state_cb :: env where
  "env_no_state_cb = env_ok\<lparr>set_service_state_changed_cb_ret := - 22\<rparr>"

definition env_no_bundle :: env where
  "env_no_bundle = env_ok\<lparr>pos_bundle_created := False\<rparr>"

text \<open>The platform once the handle is gone: the clock reads 1005 and every call to the
  provider fails with \<^verbatim>\<open>LOCATIONS_ERROR_INVALID_PARAMETER\<close>.\<close>

definition env_no_handle :: env where
  "env_no_handle =
     env_ok\<lparr>now := 1005, get_location_ret := - 22, get_last_location_ret := - 22,
            get_satellite_ret := - 22, get_last_satellite_ret := - 22,
            set_position_updated_cb_ret := - 22, set_satellite_updated_cb_ret := - 22\<rparr>"

text \<open>The reading latitude 37.5, longitude 127.0, altitude 50.2: the three doubles are
  \<open>75 * 2^-1\<close>, \<open>127\<close> and \<open>7065021915437466 * 2^-47\<close>.\<close>

definition reading_example :: gps_data where
  "reading_example =
     s_gps_data_init\<lparr>latitude := Finite False 75 (- 1), longitude := Finite False 127 0,
                      altitude := Finite False 7065021915437466 (- 47)\<rparr>"

text \<open>A service with handle 1 whose peer is connected and whose store holds that reading.\<close>

definition world_example :: world where
  "world_example =
     world_init\<lparr>s_location_data := s_location_data_init\<lparr>manager := Some 1, connected := True\<rparr>,
                 s_gps_data := reading_example\<rparr>"

text \<open>The structs as initialised, but with \<open>data_sent\<close> clear.\<close>

definition world_unsent :: world where
  "world_unsent =
     world_init\<lparr>s_location_data := s_location_data_init\<lparr>data_sent := False\<rparr>\<rparr>"

text \<open>The service after a successful \<^verbatim>\<open>locationInitialize\<close>; and after that, the provider
  reporting \<^verbatim>\<open>LOCATIONS_SERVICE_ENABLED\<close> while the last known location is stale,
  followed by \<^verbatim>\<open>locationFinalize\<close>.\<close>

definition world_initialized :: world where
  "world_initialized = run [(env_ok, LocationInitialize)] world_init"

definition world_finalized :: world where
  "world_finalized =
     run [(env_ok, LocationInitialize),
          (env_stale, StateChange LOCATIONS_SERVICE_ENABLED),
          (env_ok, LocationFinalize)] world_init"

section \<open>Properties\<close>

subsection \<open>Evaluation and frame lemmas\<close>

lemma called_simps [simp]:
  "s_location_data (called c w) = s_location_data w"
  "s_gps_data (called c w) = s_gps_data w"
  "s_sat_data (called c w) = s_sat_data w"
  "trace (called c w) = trace w @ [c]"
  "timers (called c w) = timers w"
  by (simp_all add: called_def)

lemma dec_small: "n < 10 \<Longrightarrow> dec n = [digit_char n]"
  by (simp add: dec.simps)

lemma dec_large: "\<not> n < 10 \<Longrightarrow> dec n = dec (n div 10) @ [digit_char (n mod 10)]"
  by (subst dec.simps) simp

lemma replicate_numeral:
  "replicate (numeral k) x = x # replicate (pred_numeral k) x"
  by (simp add: numeral_eq_Suc)

lemma round_micro_example:
  "round_micro 75 (- 1) = 37500000"
  "round_micro 127 0 = 127000000"
  "round_micro 7065021915437466 (- 47) = 50200000"
  by (simp_all add: round_micro_def Let_def)

lemma snprintf_f_example:
  "snprintf_f (Finite False 75 (- 1)) = ''37.500000''"
  "snprintf_f (Finite False 127 0) = ''127.000000''"
  "snprintf_f (Finite False 7065021915437466 (- 47)) = ''50.200000''"
  by (simp_all add: snprintf_f_def format_f_def round_micro_example dec_large dec_small
      digit_char_def CHAR_BUFF_SIZE_def replicate_numeral)

lemma sendMessage_frame [simp]:
  "s_location_data (snd (sendMessage r b w)) = s_location_data w"
  "s_gps_data (snd (sendMessage r b w)) = s_gps_data w"
  "s_sat_data (snd (sendMessage r b w)) = s_sat_data w"
  "timers (snd (sendMessage r b w)) = timers w"
  by (simp_all add: sendMessage_def split: option.splits)

lemma sendPosition_frame [simp]:
  "s_location_data (snd (sendPosition e w)) = s_location_data w"
  "s_gps_data (snd (sendPosition e w)) = s_gps_data w"
  "s_sat_data (snd (sendPosition e w)) = s_sat_data w"
  "timers (snd (sendPosition e w)) = timers w"
  by (simp_all add: sendPosition_def)

lemma sendSatellite_frame [simp]:
  "s_location_data (snd (sendSatellite e w)) = s_location_data w"
  "s_gps_data (snd (sendSatellite e w)) = s_gps_data w"
  "s_sat_data (snd (sendSatellite e w)) = s_sat_data w"
  "timers (snd (sendSatellite e w)) = timers w"
  by (simp_all add: sendSatellite_def)

lemma gpsConnected_frame [simp]:
  "s_location_data (snd (gpsConnected e w)) = s_location_data w"
  "s_gps_data (snd (gpsConnected e w)) = s_gps_data w"
  "s_sat_data (snd (gpsConnected e w)) = s_sat_data w"
  "timers (snd (gpsConnected e w)) = timers w"
  by (simp_all add: gpsConnected_def Let_def)

lemma disable_frame [simp]:
  "data_sent (s_location_data (disableGPS w)) = data_sent (s_location_data w)"
  "data_sent (s_location_data (disableSat w)) = data_sent (s_location_data w)"
  "manager (s_location_data (disableGPS w)) = manager (s_location_data w)"
  "manager (s_location_data (disableSat w)) = manager (s_location_data w)"
  "timers (disableGPS w) = timers w"
  "timers (disableSat w) = timers w"
  by (simp_all add: disableGPS_def disableSat_def Let_def)

lemma platform_frame [simp]:
  "data_sent (s_location_data (snd (location_manager_create e w))) =
     data_sent (s_location_data w)"
  "data_sent (s_location_data (snd (message_port_check_remote_port e w))) =
     data_sent (s_location_data w)"
  "s_location_data (snd (location_manager_get_location e w)) = s_location_data w"
  "s_location_data (snd (location_manager_get_last_location e w)) = s_location_data w"
  "s_location_data (snd (gps_status_get_satellite e w)) = s_location_data w"
  "s_location_data (snd (gps_status_get_last_satellite e w)) = s_location_data w"
  "s_location_data (ecore_timer_add w) = s_location_data w"
  by (simp_all add: location_manager_create_def message_port_check_remote_port_def
      location_manager_get_location_def location_manager_get_last_location_def
      gps_status_get_satellite_def gps_status_get_last_satellite_def ecore_timer_add_def
      Let_def)

lemma logNMEA_loop_frame [simp]:
  "s_location_data (logNMEA_loop e n w) = s_location_data w"
  by (induction n arbitrary: w) (simp_all add: Let_def)

lemma logNMEA_frame [simp]:
  "s_location_data (logNMEA e samples w) = s_location_data w"
  by (simp add: logNMEA_def)

text \<open>The one pass that \<^verbatim>\<open>onStateChange\<close> asks for.\<close>

lemma logNMEA_once:
  "logNMEA e 1 w =
     (if \<not> nmea_malloc_ok e then w\<lparr>crashed := True\<rparr>
      else if get_nmea_ret e = LOCATIONS_ERROR_NONE
      then (called (Gps_status_get_nmea (manager (s_location_data w))) w)\<lparr>crashed := True\<rparr>
      else called (Gps_status_get_nmea (manager (s_location_data w))) w)"
proof -
  have "logNMEA e 1 w = logNMEA_loop e (Suc 0) w"
    by (simp add: logNMEA_def)
  then show ?thesis
    by (simp add: Let_def)
qed

text \<open>Where the difference of two timestamps fits a \<^verbatim>\<open>time_t\<close>, the code computes
  it.\<close>

lemma time_t_sub_exact:
  assumes "- (2 ^ 63) \<le> a - b" and "a - b < 2 ^ 63"
  shows "time_t_sub a b = a - b"
proof -
  have "0 \<le> a - b + 2 ^ 63" and "a - b + 2 ^ 63 < 2 ^ 64"
    using assms by simp_all
  then have "(a - b + 2 ^ 63) mod 2 ^ 64 = a - b + 2 ^ 63"
    by (rule mod_pos_pos_trivial)
  then show ?thesis
    by (simp add: time_t_sub_def time_t_wrap_def)
qed

lemma initData_frame [simp]:
  "s_location_data (snd (initData e w)) = s_location_data w"
  by (simp add: initData_def Let_def case_prod_unfold)

subsection \<open>The position payload\<close>

lemma position_bundle_eq:
  "position_bundle g =
     [(''msg_type'', ''POSITION_UPDATE''), (''latitude'', snprintf_f (latitude g)),
      (''longitude'', snprintf_f (longitude g)), (''altitude'', snprintf_f (longitude g))]"
  by (simp add: position_bundle_def bundle_add_str_def MESSAGE_TYPE_POSITION_UPDATE_def Let_def)

text \<open>Whatever the reading, the key \<open>altitude\<close> carries the string of the longitude.\<close>

lemma position_bundle_altitude:
  "bundle_get_str (position_bundle g) ''altitude'' = Some (snprintf_f (longitude g))"
  by (simp add: position_bundle_eq bundle_get_str_def)

lemma position_bundle_example:
  "position_bundle reading_example =
     [(''msg_type'', ''POSITION_UPDATE''), (''latitude'', ''37.500000''),
      (''longitude'', ''127.000000''), (''altitude'', ''127.000000'')]"
  by (simp add: position_bundle_eq reading_example_def s_gps_data_init_def snprintf_f_example)

text \<open>
  C1 (the payload of \<^verbatim>\<open>sendPosition\<close> maps \<open>altitude\<close> to the stringified altitude).
  What the code does at the reading latitude 37.5, longitude 127.0, altitude 50.2 with a
  peer connected: the one message it sends carries \<open>127.000000\<close> under \<open>altitude\<close>, the
  string of the longitude, while the altitude of the reading prints as \<open>50.200000\<close>. The
  source formats \<^verbatim>\<open>altitude_str\<close> and then adds \<^verbatim>\<open>longitude_str\<close> under that key.
\<close>

theorem sendPosition_altitude_key:
  "trace (snd (sendPosition env_ok world_example)) =
     [Message_port_send_message
        [(''msg_type'', ''POSITION_UPDATE''), (''latitude'', ''37.500000''),
         (''longitude'', ''127.000000''), (''altitude'', ''127.000000'')]]
   \<and> bundle_get_str (position_bundle reading_example) ''altitude'' = Some ''127.000000''
   \<and> snprintf_f (altitude reading_example) = ''50.200000''"
proof -
  have "s_gps_data world_example = reading_example"
    and "connected (s_location_data world_example)" and "trace world_example = []"
    by (simp_all add: world_example_def world_init_def)
  moreover have "pos_bundle_created env_ok"
    by (simp add: env_ok_def)
  ultimately have "trace (snd (sendPosition env_ok world_example)) =
      [Message_port_send_message (position_bundle reading_example)]"
    by (simp add: sendPosition_def sendMessage_def)
  moreover have "snprintf_f (altitude reading_example) = ''50.200000''"
    by (simp add: reading_example_def snprintf_f_example)
  ultimately show ?thesis
    by (simp add: position_bundle_example bundle_get_str_def)
qed

subsection \<open>Sending without a peer\<close>

text \<open>
  C10, as the code has it: while \<open>connected\<close> is false, \<^verbatim>\<open>sendMessage\<close> returns true
  for every payload and calls nothing, and \<^verbatim>\<open>sendPosition\<close> and \<^verbatim>\<open>sendSatellite\<close>
  call nothing either and return true exactly when \<^verbatim>\<open>bundle_create\<close> gave them a
  bundle.
\<close>

theorem no_peer_no_send:
  assumes "\<not> connected (s_location_data w)"
  shows "sendMessage r b w = (True, w)
       \<and> sendPosition e w = (pos_bundle_created e, w)
       \<and> sendSatellite e w = (sat_bundle_created e, w)"
  using assms by (simp add: sendMessage_def sendPosition_def sendSatellite_def)

text \<open>C10, witness: the initial service, which has no peer, on the platform \<open>env_ok\<close>.\<close>

theorem no_peer_no_send_witness:
  "\<not> connected (s_location_data world_init)
   \<and> sendMessage 0 None world_init = (True, world_init)
   \<and> sendPosition env_ok world_init = (True, world_init)
   \<and> sendSatellite env_ok world_init = (True, world_init)"
proof -
  have h: "\<not> connected (s_location_data world_init)"
    by (simp add: world_init_def s_location_data_init_def)
  show ?thesis
    using h no_peer_no_send [OF h, of 0 None env_ok] by (simp add: env_ok_def)
qed

text \<open>C10, as stated, fails when \<^verbatim>\<open>bundle_create\<close> returns \<^verbatim>\<open>NULL\<close>: without a peer
  \<^verbatim>\<open>sendPosition\<close> then returns false.\<close>

theorem sendPosition_no_bundle:
  "\<not> connected (s_location_data world_init)
   \<and> fst (sendPosition env_no_bundle world_init) = False"
  by (simp add: world_init_def s_location_data_init_def sendPosition_def env_no_bundle_def)

subsection \<open>The latch\<close>

lemma initDataSend_latch:
  "data_sent (s_location_data w) \<Longrightarrow> data_sent (s_location_data (snd (initDataSend e w)))"
  by (simp add: initDataSend_def Let_def case_prod_unfold)

lemma enableGPS_latch:
  "data_sent (s_location_data w) \<Longrightarrow> data_sent (s_location_data (snd (enableGPS e w)))"
  by (simp add: enableGPS_def Let_def case_prod_unfold initDataSend_latch)

lemma enableSat_data_sent [simp]:
  "data_sent (s_location_data (snd (enableSat e w))) = data_sent (s_location_data w)"
  by (simp add: enableSat_def Let_def)

lemma locationFinalize_data_sent [simp]:
  "data_sent (s_location_data (locationFinalize w)) = data_sent (s_location_data w)"
  by (simp add: locationFinalize_def Let_def)

lemma locationInitialize_data_sent [simp]:
  "data_sent (s_location_data (snd (locationInitialize e w))) = data_sent (s_location_data w)"
  by (simp add: locationInitialize_def checkRemotePort_def Let_def case_prod_unfold)

lemma onStateChange_latch:
  "data_sent (s_location_data w) \<Longrightarrow> data_sent (s_location_data (onStateChange e st w))"
  by (simp add: onStateChange_def Let_def case_prod_unfold enableGPS_latch)

lemma onPositionChange_data_sent [simp]:
  "data_sent (s_location_data (onPositionChange e lat lon alt ts w)) =
     data_sent (s_location_data w)"
  by (simp add: onPositionChange_def Let_def case_prod_unfold)

lemma onSatelliteChange_data_sent [simp]:
  "data_sent (s_location_data (onSatelliteChange e a i ts w)) = data_sent (s_location_data w)"
  by (simp add: onSatelliteChange_def Let_def)

lemma onTimerSend_latch:
  "data_sent (s_location_data w) \<Longrightarrow> data_sent (s_location_data (snd (onTimerSend e w)))"
  by (simp add: onTimerSend_def Let_def case_prod_unfold initDataSend_latch)

lemma fire_latch:
  "data_sent (s_location_data w) \<Longrightarrow> data_sent (s_location_data (fire e ev w))"
  by (cases ev)
     (simp_all add: locationStop_def onStateChange_latch onTimerSend_latch Let_def
        case_prod_unfold)

text \<open>
  C4: along every sequence of events (the public functions, the three callbacks, the
  timer), on whatever platform, a service whose \<open>data_sent\<close> is true keeps it true.
\<close>

theorem data_sent_latch:
  "data_sent (s_location_data w) \<Longrightarrow> data_sent (s_location_data (run evs w))"
proof (induction evs arbitrary: w)
  case Nil
  then show ?case by simp
next
  case (Cons x evs)
  obtain e ev where x: "x = (e, ev)" by (cases x)
  show ?case
  proof (cases "crashed w")
    case True
    with Cons.prems x show ?thesis by simp
  next
    case False
    from Cons.prems have "data_sent (s_location_data (fire e ev w))" by (rule fire_latch)
    with False show ?thesis using Cons.IH x by simp
  qed
qed

text \<open>C4, witness: the initial service through initialize, a provider that comes up with
  stale data, a satellite update, the timer and finalize.\<close>

theorem data_sent_latch_witness:
  "data_sent (s_location_data world_init)
   \<and> data_sent (s_location_data
        (run [(env_ok, LocationInitialize),
              (env_stale, StateChange LOCATIONS_SERVICE_ENABLED),
              (env_ok, SatelliteChange 4 9 999),
              (env_ok, TimerSend),
              (env_ok, LocationFinalize)] world_init))"
proof -
  have h: "data_sent (s_location_data world_init)"
    by (simp add: world_init_def s_location_data_init_def)
  show ?thesis
    using h data_sent_latch [OF h] by (rule conjI)
qed

subsection \<open>Concrete runs\<close>

lemmas model_defs =
  sendMessage_def sendPosition_def sendSatellite_def
  location_manager_create_def message_port_check_remote_port_def
  location_manager_get_location_def location_manager_get_last_location_def
  gps_status_get_satellite_def gps_status_get_last_satellite_def ecore_timer_add_def
  gpsConnected_def checkRemotePort_def disableGPS_def disableSat_def initData_def
  initDataSend_def enableGPS_def enableSat_def logNMEA_once locationFinalize_def
  locationStop_def locationInitialize_def onStateChange_def onPositionChange_def
  onSatelliteChange_def onTimerSend_def called_def
  POSITION_UPDATE_INTERVAL_def SATELLITE_UPDATE_INTERVAL_def MAX_TIME_DIFF_def
  LOCATIONS_ERROR_NONE_def MESSAGE_PORT_ERROR_NONE_def RUNTIME_INFO_GPS_STATUS_CONNECTED_def
  ECORE_CALLBACK_CANCEL_def ECORE_CALLBACK_RENEW_def time_t_sub_def time_t_wrap_def
  Let_def case_prod_unfold

lemmas example_defs =
  env_ok_def world_init_def s_location_data_init_def s_gps_data_init_def s_sat_data_init_def

lemma world_initialized_eq:
  "world_initialized =
     \<lparr>s_location_data =
        \<lparr>gpsEnabled = False, satEnabled = False, manager = Some 1,
         state = LOCATIONS_SERVICE_DISABLED, connected = True, data_sent = True\<rparr>,
      s_gps_data = s_gps_data_init, s_sat_data = s_sat_data_init,
      trace =
        [Runtime_info_get_value RUNTIME_INFO_KEY_LOCATION_SERVICE_ENABLED,
         Runtime_info_get_value RUNTIME_INFO_KEY_GPS_STATUS,
         Runtime_info_get_value RUNTIME_INFO_KEY_WIFI_HOTSPOT_ENABLED,
         Runtime_info_get_value RUNTIME_INFO_KEY_BLUETOOTH_ENABLED,
         Location_manager_create,
         Location_manager_set_service_state_changed_cb (Some 1),
         Location_manager_start (Some 1), Message_port_check_remote_port],
      timers = 0, crashed = False\<rparr>"
  by (simp add: world_initialized_def model_defs env_ok_def world_init_def
      s_location_data_init_def)

lemma world_finalized_eq:
  "world_finalized =
     \<lparr>s_location_data =
        \<lparr>gpsEnabled = False, satEnabled = False, manager = None,
         state = LOCATIONS_SERVICE_ENABLED, connected = True, data_sent = True\<rparr>,
      s_gps_data = s_gps_data_init\<lparr>timestamp := 990\<rparr>, s_sat_data = s_sat_data_init,
      trace =
        [Runtime_info_get_value RUNTIME_INFO_KEY_LOCATION_SERVICE_ENABLED,
         Runtime_info_get_value RUNTIME_INFO_KEY_GPS_STATUS,
         Runtime_info_get_value RUNTIME_INFO_KEY_WIFI_HOTSPOT_ENABLED,
         Runtime_info_get_value RUNTIME_INFO_KEY_BLUETOOTH_ENABLED,
         Location_manager_create,
         Location_manager_set_service_state_changed_cb (Some 1),
         Location_manager_start (Some 1), Message_port_check_remote_port,
         Location_manager_set_position_updated_cb (Some 1) 3,
         Location_manager_get_last_location (Some 1), Ecore_timer_add,
         Runtime_info_get_value RUNTIME_INFO_KEY_LOCATION_SERVICE_ENABLED,
         Runtime_info_get_value RUNTIME_INFO_KEY_GPS_STATUS,
         Runtime_info_get_value RUNTIME_INFO_KEY_WIFI_HOTSPOT_ENABLED,
         Runtime_info_get_value RUNTIME_INFO_KEY_BLUETOOTH_ENABLED,
         Gps_status_set_satellite_updated_cb (Some 1) 10,
         Location_manager_get_location (Some 1),
         Gps_status_get_satellite (Some 1), Gps_status_get_nmea (Some 1),
         Gps_status_unset_satellite_updated_cb (Some 1),
         Location_manager_unset_position_updated_cb (Some 1),
         Location_manager_unset_service_state_changed_cb (Some 1),
         Location_manager_stop (Some 1), Location_manager_destroy (Some 1)],
      timers = 1, crashed = False\<rparr>"
  by (simp add: world_finalized_def model_defs example_defs env_stale_def)

subsection \<open>The forwarding gate\<close>

lemma observe_update [simp]:
  "position_cb_calls (w\<lparr>s_location_data := l\<rparr>) = position_cb_calls w"
  "position_cb_calls (w\<lparr>s_gps_data := g\<rparr>) = position_cb_calls w"
  "position_cb_calls (w\<lparr>s_sat_data := s\<rparr>) = position_cb_calls w"
  "position_cb_calls (w\<lparr>timers := n\<rparr>) = position_cb_calls w"
  "position_cb_calls (called c w) = position_cb_calls w + position_cb_of c"
  "messages (w\<lparr>s_location_data := l\<rparr>) = messages w"
  "messages (w\<lparr>s_gps_data := g\<rparr>) = messages w"
  "messages (w\<lparr>s_sat_data := s\<rparr>) = messages w"
  "messages (w\<lparr>timers := n\<rparr>) = messages w"
  "messages (called c w) = messages w @ sent_of c"
  by (simp_all add: position_cb_calls_def messages_def)

lemma messages_frame [simp]:
  "messages (snd (gpsConnected e w)) = messages w"
  "messages (snd (enableSat e w)) = messages w"
  by (simp_all add: gpsConnected_def enableSat_def disableSat_def Let_def)

text \<open>The two callbacks hand nothing to the Message Sender while \<open>data_sent\<close> is false.\<close>

lemma forwarding_gate:
  assumes "\<not> data_sent (s_location_data w)"
  shows "messages (onPositionChange e lat lon alt ts w) = messages w"
    and "messages (onSatelliteChange e a i ts w) = messages w"
  using assms
  by (simp_all add: onPositionChange_def onSatelliteChange_def Let_def case_prod_unfold)

text \<open>
  C2 (after a successful initialize and before any warm-start, \<open>data_sent\<close> is false and
  a position callback sends nothing). What the code does: \<^verbatim>\<open>s_location_data\<close> is
  initialised with \<^verbatim>\<open>.data_sent = true\<close>, so right after a successful
  \<^verbatim>\<open>locationInitialize\<close> the flag is true, no message has been sent yet, and a position
  callback with a reading 5 seconds old sends a position message.
\<close>

theorem data_sent_after_initialize:
  "fst (locationInitialize env_ok world_init)
   \<and> world_initialized = snd (locationInitialize env_ok world_init)
   \<and> data_sent (s_location_data world_initialized)
   \<and> messages world_initialized = []
   \<and> messages (onPositionChange env_ok (Finite False 75 (- 1)) (Finite False 127 0)
                 (Finite False 7065021915437466 (- 47)) 995 world_initialized) =
       [[(''msg_type'', ''POSITION_UPDATE''), (''latitude'', ''37.500000''),
         (''longitude'', ''127.000000''), (''altitude'', ''127.000000'')]]"
proof -
  have "fst (locationInitialize env_ok world_init)"
    by (simp add: model_defs env_ok_def)
  moreover have "world_initialized = snd (locationInitialize env_ok world_init)"
    by (simp add: world_initialized_def world_init_def)
  moreover have "data_sent (s_location_data world_initialized)"
    and "messages world_initialized = []"
    by (simp_all add: world_initialized_eq messages_def)
  moreover have "messages (onPositionChange env_ok (Finite False 75 (- 1)) (Finite False 127 0)
                 (Finite False 7065021915437466 (- 47)) 995 world_initialized) =
       [[(''msg_type'', ''POSITION_UPDATE''), (''latitude'', ''37.500000''),
         (''longitude'', ''127.000000''), (''altitude'', ''127.000000'')]]"
    by (simp add: world_initialized_eq onPositionChange_def gpsConnected_def enableSat_def
        sendPosition_def sendMessage_def env_ok_def s_gps_data_init_def
        MAX_TIME_DIFF_def LOCATIONS_ERROR_NONE_def RUNTIME_INFO_GPS_STATUS_CONNECTED_def
        time_t_sub_def time_t_wrap_def
        Let_def case_prod_unfold messages_def called_def position_bundle_eq
        snprintf_f_example)
  ultimately show ?thesis
    by simp
qed

subsection \<open>Warm-start and freshness\<close>

text \<open>After a fetch that succeeds, the timestamp in the store is the fetched one.\<close>

lemma fetched_timestamp:
  "get_last_location_ret e = LOCATIONS_ERROR_NONE \<Longrightarrow>
   timestamp (s_gps_data (snd (location_manager_get_last_location e w))) =
     timestamp (get_last_location_val e)"
  by (simp add: location_manager_get_last_location_def Let_def)

lemma initDataSend_expired:
  assumes "time_t_sub (now e)
             (timestamp (s_gps_data (snd (location_manager_get_last_location e w)))) > MAX_TIME_DIFF"
  shows "fst (initDataSend e w) = False"
    and "data_sent (s_location_data (snd (initDataSend e w))) = data_sent (s_location_data w)"
  using assms
  by (simp_all add: initDataSend_def initData_def Let_def case_prod_unfold)

text \<open>
  C5, as the code has it: when the position in the store after the fetch of
  \<^verbatim>\<open>initData\<close> is more than 30 seconds older than the clock, and the difference of
  the clock and its timestamp fits a \<^verbatim>\<open>time_t\<close>, \<^verbatim>\<open>initDataSend\<close> returns false
  and leaves \<open>data_sent\<close> as it was.
\<close>

theorem initDataSend_stale:
  assumes "now e - timestamp (s_gps_data (snd (location_manager_get_last_location e w))) > 30"
    and "now e - timestamp (s_gps_data (snd (location_manager_get_last_location e w))) < 2 ^ 63"
  shows "fst (initDataSend e w) = False
       \<and> data_sent (s_location_data (snd (initDataSend e w))) = data_sent (s_location_data w)"
proof -
  let ?ts = "timestamp (s_gps_data (snd (location_manager_get_last_location e w)))"
  have "time_t_sub (now e) ?ts = now e - ?ts"
    using assms by (intro time_t_sub_exact) simp_all
  with assms(1) have "time_t_sub (now e) ?ts > MAX_TIME_DIFF"
    by (simp add: MAX_TIME_DIFF_def)
  then show ?thesis
    using initDataSend_expired [of e w] by simp
qed

text \<open>C5, witness: a last known location 100 seconds old, fetched into a service whose
  \<open>data_sent\<close> is clear; it stays clear.\<close>

theorem initDataSend_stale_witness:
  "now env_stale
     - timestamp (s_gps_data (snd (location_manager_get_last_location env_stale world_unsent))) > 30
   \<and> now env_stale
     - timestamp (s_gps_data (snd (location_manager_get_last_location env_stale world_unsent)))
       < 2 ^ 63
   \<and> \<not> data_sent (s_location_data world_unsent)
   \<and> fst (initDataSend env_stale world_unsent) = False
   \<and> \<not> data_sent (s_location_data (snd (initDataSend env_stale world_unsent)))"
proof -
  have h1: "now env_stale
     - timestamp (s_gps_data (snd (location_manager_get_last_location env_stale world_unsent))) > 30"
    and h2: "now env_stale
     - timestamp (s_gps_data (snd (location_manager_get_last_location env_stale world_unsent)))
       < 2 ^ 63"
    by (simp_all add: env_stale_def env_ok_def location_manager_get_last_location_def
        LOCATIONS_ERROR_NONE_def Let_def)
  have u: "\<not> data_sent (s_location_data world_unsent)"
    by (simp add: world_unsent_def world_init_def)
  show ?thesis
    using h1 h2 u initDataSend_stale [OF h1 h2] by simp
qed

text \<open>
  C5, as stated, fails where the subtraction overflows. With a last known location stamped
  \<^verbatim>\<open>LONG_MIN\<close> and the clock at 1000, the position is more than 30 seconds old, yet
  the difference computed in \<^verbatim>\<open>time_t\<close> is negative: the warm-start goes on, reports
  success and sets \<open>data_sent\<close>.
\<close>

theorem initDataSend_overflow:
  "now env_long_min
     - timestamp (s_gps_data (snd (location_manager_get_last_location env_long_min world_unsent)))
       > 30
   \<and> \<not> data_sent (s_location_data world_unsent)
   \<and> fst (initDataSend env_long_min world_unsent) = True
   \<and> data_sent (s_location_data (snd (initDataSend env_long_min world_unsent)))
   \<and> fst (initDataSend env_long_min world_init) = True"
  by (simp add: model_defs example_defs env_long_min_def world_unsent_def)

subsection \<open>Initialize and finalize\<close>

text \<open>
  C6: \<^verbatim>\<open>locationInitialize\<close> returns false exactly when \<^verbatim>\<open>location_manager_create\<close>
  or \<^verbatim>\<open>location_manager_set_service_state_changed_cb\<close> fails (the code of
  \<^verbatim>\<open>location_manager_start\<close> is dropped and that of the port check only logged); and
  when the registration fails after a successful creation, the calls made are the
  creation, the registration, and the teardown of \<^verbatim>\<open>locationFinalize\<close> ending in
  \<^verbatim>\<open>location_manager_destroy\<close> on the new handle, after which the handle is
  \<^verbatim>\<open>NULL\<close> and both subscriptions are off.
\<close>

theorem locationInitialize_result:
  "(fst (locationInitialize e w) = False) =
     (create_ret e \<noteq> LOCATIONS_ERROR_NONE
      \<or> set_service_state_changed_cb_ret e \<noteq> LOCATIONS_ERROR_NONE)
   \<and> (create_ret e = LOCATIONS_ERROR_NONE
        \<and> set_service_state_changed_cb_ret e \<noteq> LOCATIONS_ERROR_NONE \<longrightarrow>
      manager (s_location_data (snd (locationInitialize e w))) = None
      \<and> \<not> gpsEnabled (s_location_data (snd (locationInitialize e w)))
      \<and> \<not> satEnabled (s_location_data (snd (locationInitialize e w)))
      \<and> trace (snd (locationInitialize e w)) =
          trace w @
          [Runtime_info_get_value RUNTIME_INFO_KEY_LOCATION_SERVICE_ENABLED,
           Runtime_info_get_value RUNTIME_INFO_KEY_GPS_STATUS,
           Runtime_info_get_value RUNTIME_INFO_KEY_WIFI_HOTSPOT_ENABLED,
           Runtime_info_get_value RUNTIME_INFO_KEY_BLUETOOTH_ENABLED,
           Location_manager_create,
           Location_manager_set_service_state_changed_cb (Some (create_val e)),
           Gps_status_unset_satellite_updated_cb (Some (create_val e)),
           Location_manager_unset_position_updated_cb (Some (create_val e)),
           Location_manager_unset_service_state_changed_cb (Some (create_val e)),
           Location_manager_stop (Some (create_val e)),
           Location_manager_destroy (Some (create_val e))])"
  by (simp add: locationInitialize_def gpsConnected_def location_manager_create_def
      locationFinalize_def disableSat_def disableGPS_def checkRemotePort_def
      Let_def case_prod_unfold)

text \<open>C6, witness: the provider creates handle 1 and refuses the state-change
  callback.\<close>

theorem locationInitialize_result_witness:
  "create_ret env_no_state_cb = LOCATIONS_ERROR_NONE
   \<and> set_service_state_changed_cb_ret env_no_state_cb \<noteq> LOCATIONS_ERROR_NONE
   \<and> fst (locationInitialize env_no_state_cb world_init) = False
   \<and> manager (s_location_data (snd (locationInitialize env_no_state_cb world_init))) = None
   \<and> last (trace (snd (locationInitialize env_no_state_cb world_init))) =
       Location_manager_destroy (Some 1)"
proof -
  have h: "create_ret env_no_state_cb = LOCATIONS_ERROR_NONE"
      "set_service_state_changed_cb_ret env_no_state_cb \<noteq> LOCATIONS_ERROR_NONE"
      "create_val env_no_state_cb = 1"
    by (simp_all add: env_no_state_cb_def env_ok_def LOCATIONS_ERROR_NONE_def)
  show ?thesis
    using h locationInitialize_result [of env_no_state_cb world_init] by simp
qed

text \<open>
  C7: \<^verbatim>\<open>locationFinalize\<close> is a total function of the state; a second call in a row
  changes nothing, the trace of calls included; after it the handle is \<^verbatim>\<open>NULL\<close>; and
  from a state without a handle it makes no call at all.
\<close>

theorem locationFinalize_idempotent:
  "locationFinalize (locationFinalize w) = locationFinalize w
   \<and> manager (s_location_data (locationFinalize w)) = None
   \<and> (manager (s_location_data w) = None \<longrightarrow> trace (locationFinalize w) = trace w)"
  by (simp add: locationFinalize_def disableSat_def disableGPS_def Let_def)

text \<open>C7, witness: the initial service, never initialised.\<close>

theorem locationFinalize_idempotent_witness:
  "manager (s_location_data world_init) = None
   \<and> locationFinalize (locationFinalize world_init) = locationFinalize world_init
   \<and> manager (s_location_data (locationFinalize world_init)) = None
   \<and> trace (locationFinalize world_init) = trace world_init"
proof -
  have h: "manager (s_location_data world_init) = None"
    by (simp add: world_init_def s_location_data_init_def)
  show ?thesis
    using h locationFinalize_idempotent [of world_init] by simp
qed

subsection \<open>The retry timer\<close>

lemma send_trace:
  "\<exists>cs. trace (snd (sendMessage r b w)) = trace w @ cs"
  "\<exists>cs. trace (snd (sendPosition e w)) = trace w @ cs"
  "\<exists>cs. trace (snd (sendSatellite e w)) = trace w @ cs"
  by (simp_all add: sendPosition_def sendSatellite_def sendMessage_def split: option.splits)

lemma initData_trace:
  "\<exists>cs. trace (snd (initData e w)) =
     trace w @ Location_manager_get_last_location (manager (s_location_data w)) # cs"
  by (simp add: initData_def location_manager_get_last_location_def
      gps_status_get_last_satellite_def Let_def case_prod_unfold)

lemma initDataSend_trace:
  "\<exists>cs. trace (snd (initDataSend e w)) =
     trace w @ Location_manager_get_last_location (manager (s_location_data w)) # cs"
proof -
  obtain c1 where c1: "trace (snd (initData e w)) =
     trace w @ Location_manager_get_last_location (manager (s_location_data w)) # c1"
    using initData_trace by blast
  obtain c2 where c2: "trace (snd (sendSatellite e (snd (initData e w)))) =
     trace (snd (initData e w)) @ c2"
    using send_trace(3) by blast
  obtain c3 where c3: "trace (snd (sendPosition e (snd (sendSatellite e (snd (initData e w)))))) =
     trace (snd (sendSatellite e (snd (initData e w)))) @ c3"
    using send_trace(2) by blast
  show ?thesis
    by (simp add: initDataSend_def Let_def case_prod_unfold c1 c2 c3)
qed

text \<open>
  C3, as the code has it: \<^verbatim>\<open>locationFinalize\<close> leaves the pending timers as they are
  and clears the handle, and \<^verbatim>\<open>onTimerSend\<close> run after it starts the warm-start by
  calling \<^verbatim>\<open>location_manager_get_last_location\<close> with the \<^verbatim>\<open>NULL\<close> handle.
\<close>

theorem finalize_keeps_timer:
  "timers (locationFinalize w) = timers w
   \<and> manager (s_location_data (locationFinalize w)) = None
   \<and> (\<exists>cs. trace (snd (onTimerSend e (locationFinalize w))) =
          trace (locationFinalize w) @ Location_manager_get_last_location None # cs)"
proof -
  have t: "timers (locationFinalize w) = timers w"
    by (simp add: locationFinalize_def Let_def)
  have m: "manager (s_location_data (locationFinalize w)) = None"
    by (simp add: locationFinalize_def Let_def)
  have "\<exists>cs. trace (snd (onTimerSend e (locationFinalize w))) =
          trace (locationFinalize w) @ Location_manager_get_last_location None # cs"
    using initDataSend_trace [of e "locationFinalize w"]
    by (simp add: onTimerSend_def Let_def case_prod_unfold m)
  with t m show ?thesis by blast
qed

text \<open>
  C3, as stated, fails: initialize, then the provider reports enabled while the last known
  location is stale, so \<^verbatim>\<open>enableGPS\<close> schedules the timer, then finalize. The timer is
  still pending and handle 1 is destroyed; when the timer fires 5 seconds later, with a
  reading in the store that is 15 seconds old, the warm-start queries the provider through
  the \<^verbatim>\<open>NULL\<close> handle and sends the satellite and the position message.
\<close>

theorem timer_fires_after_finalize:
  "timers world_finalized = 1
   \<and> manager (s_location_data world_finalized) = None
   \<and> Location_manager_destroy (Some 1) \<in> set (trace world_finalized)
   \<and> trace (fire env_no_handle TimerSend world_finalized) =
       trace world_finalized @
       [Location_manager_get_last_location None, Gps_status_get_last_satellite None,
        Message_port_send_message (satellite_bundle s_sat_data_init),
        Message_port_send_message (position_bundle (s_gps_data_init\<lparr>timestamp := 990\<rparr>))]"
  by (simp add: world_finalized_eq model_defs example_defs env_no_handle_def)

subsection \<open>Enabling and disabling the subscriptions\<close>

lemma send_position_cb_calls [simp]:
  "position_cb_calls (snd (sendMessage r b w)) = position_cb_calls w"
  "position_cb_calls (snd (sendPosition e w)) = position_cb_calls w"
  "position_cb_calls (snd (sendSatellite e w)) = position_cb_calls w"
  by (simp_all add: sendPosition_def sendSatellite_def sendMessage_def split: option.splits)

lemma initData_position_cb_calls [simp]:
  "position_cb_calls (snd (initData e w)) = position_cb_calls w"
  by (simp add: initData_def location_manager_get_last_location_def
      gps_status_get_last_satellite_def Let_def case_prod_unfold)

lemma initDataSend_position_cb_calls [simp]:
  "position_cb_calls (snd (initDataSend e w)) = position_cb_calls w"
  by (simp add: initDataSend_def Let_def case_prod_unfold)

lemma disableGPS_position_cb_calls [simp]:
  "position_cb_calls (disableGPS w) = position_cb_calls w"
  "position_cb_calls (ecore_timer_add w) = position_cb_calls w"
  by (simp_all add: disableGPS_def ecore_timer_add_def Let_def)

lemma disableGPS_gpsEnabled [simp]:
  "\<not> gpsEnabled (s_location_data (disableGPS w))"
  by (simp add: disableGPS_def Let_def)

lemma enableGPS_enabled:
  "gpsEnabled (s_location_data w) \<Longrightarrow> enableGPS e w = (True, w)"
  by (simp add: enableGPS_def)

lemma enableGPS_fst:
  "fst (enableGPS e w) = gpsEnabled (s_location_data (snd (enableGPS e w)))"
  by (simp add: enableGPS_def Let_def case_prod_unfold)

lemma enableGPS_position_cb_calls:
  "position_cb_calls (snd (enableGPS e w)) =
     position_cb_calls w + (if gpsEnabled (s_location_data w) then 0 else 1)"
  by (simp add: enableGPS_def Let_def case_prod_unfold)

text \<open>
  C8, as the code has it. When the first call returns true, a second call in a row, on
  whatever platform, returns true and changes nothing, \<open>gpsEnabled\<close> is set, and the two
  calls together have asked for the position-update callback once if \<open>gpsEnabled\<close> was
  clear before and not at all if it was set. When the first call returns false,
  \<open>gpsEnabled\<close> is clear and the second call asks for the callback again.
\<close>

theorem enableGPS_twice:
  "(fst (enableGPS e1 w) \<longrightarrow>
      enableGPS e2 (snd (enableGPS e1 w)) = (True, snd (enableGPS e1 w))
      \<and> gpsEnabled (s_location_data (snd (enableGPS e1 w)))
      \<and> position_cb_calls (snd (enableGPS e2 (snd (enableGPS e1 w)))) =
          position_cb_calls w + (if gpsEnabled (s_location_data w) then 0 else 1))
   \<and> (\<not> fst (enableGPS e1 w) \<longrightarrow>
      \<not> gpsEnabled (s_location_data (snd (enableGPS e1 w)))
      \<and> position_cb_calls (snd (enableGPS e2 (snd (enableGPS e1 w)))) = position_cb_calls w + 2)"
proof (cases "fst (enableGPS e1 w)")
  case True
  then have en: "gpsEnabled (s_location_data (snd (enableGPS e1 w)))"
    by (simp add: enableGPS_fst)
  then have "enableGPS e2 (snd (enableGPS e1 w)) = (True, snd (enableGPS e1 w))"
    by (rule enableGPS_enabled)
  with True en show ?thesis
    by (simp add: enableGPS_position_cb_calls)
next
  case False
  then have dis: "\<not> gpsEnabled (s_location_data (snd (enableGPS e1 w)))"
    by (simp add: enableGPS_fst)
  have "\<not> gpsEnabled (s_location_data w)"
    using False by (auto simp: enableGPS_enabled)
  with False dis show ?thesis
    by (simp add: enableGPS_position_cb_calls)
qed

text \<open>C8, witness: from a service with a handle and \<open>gpsEnabled\<close> clear, twice on a
  platform that accepts the callback, and twice on one that refuses it.\<close>

theorem enableGPS_twice_witness:
  "(fst (enableGPS env_ok world_example)
    \<and> enableGPS env_ok (snd (enableGPS env_ok world_example)) =
        (True, snd (enableGPS env_ok world_example))
    \<and> position_cb_calls (snd (enableGPS env_ok (snd (enableGPS env_ok world_example)))) = 1)
   \<and> (\<not> fst (enableGPS env_no_position_cb world_example)
    \<and> \<not> gpsEnabled (s_location_data (snd (enableGPS env_no_position_cb world_example)))
    \<and> position_cb_calls
         (snd (enableGPS env_ok (snd (enableGPS env_no_position_cb world_example)))) = 2)"
proof -
  have h1: "fst (enableGPS env_ok world_example)"
    by (simp add: model_defs example_defs world_example_def reading_example_def)
  have h2: "\<not> fst (enableGPS env_no_position_cb world_example)"
    by (simp add: model_defs example_defs world_example_def reading_example_def
        env_no_position_cb_def)
  have w: "position_cb_calls world_example = 0" "\<not> gpsEnabled (s_location_data world_example)"
    by (simp_all add: example_defs world_example_def position_cb_calls_def)
  note t1 = enableGPS_twice [of env_ok world_example env_ok, THEN conjunct1, rule_format, OF h1]
  note t2 = enableGPS_twice [of env_no_position_cb world_example env_ok, THEN conjunct2,
      rule_format, OF h2]
  have c1: "position_cb_calls (snd (enableGPS env_ok (snd (enableGPS env_ok world_example)))) = 1"
    using t1 [THEN conjunct2, THEN conjunct2] w by simp
  have c2: "position_cb_calls
      (snd (enableGPS env_ok (snd (enableGPS env_no_position_cb world_example)))) = 2"
    using t2 [THEN conjunct2] w by simp
  show ?thesis
    using h1 h2 t1 [THEN conjunct1] t2 [THEN conjunct1] c1 c2 by blast
qed

text \<open>
  C8, as stated, fails when the provider refuses the callback. Refused on the first call
  and accepted on the second, \<open>gpsEnabled\<close> is clear after one call and set after two;
  refused on both, the registration has been asked for twice and has never succeeded.
\<close>

theorem enableGPS_not_idempotent:
  "\<not> gpsEnabled (s_location_data (snd (enableGPS env_no_position_cb world_example)))
   \<and> gpsEnabled (s_location_data
        (snd (enableGPS env_ok (snd (enableGPS env_no_position_cb world_example)))))
   \<and> position_cb_calls world_example = 0
   \<and> position_cb_calls
        (snd (enableGPS env_no_position_cb (snd (enableGPS env_no_position_cb world_example)))) = 2"
  by (simp add: model_defs example_defs world_example_def reading_example_def
      env_no_position_cb_def position_cb_calls_def)

text \<open>
  C9: on \<^verbatim>\<open>LOCATIONS_SERVICE_DISABLED\<close> the handler records the state and runs
  \<^verbatim>\<open>disableSat\<close>, then \<^verbatim>\<open>disableGPS\<close>, whatever the two flags are: with a handle the
  calls it makes are the satellite unsubscription followed by the position
  unsubscription, without one it makes none, and both flags end up clear.
\<close>

theorem onStateChange_disabled_order:
  "onStateChange e LOCATIONS_SERVICE_DISABLED w =
     disableGPS (disableSat (w\<lparr>s_location_data :=
        (s_location_data w)\<lparr>state := LOCATIONS_SERVICE_DISABLED\<rparr>\<rparr>))
   \<and> trace (onStateChange e LOCATIONS_SERVICE_DISABLED w) =
       trace w @ (if manager (s_location_data w) = None then []
                  else [Gps_status_unset_satellite_updated_cb (manager (s_location_data w)),
                        Location_manager_unset_position_updated_cb (manager (s_location_data w))])
   \<and> \<not> satEnabled (s_location_data (onStateChange e LOCATIONS_SERVICE_DISABLED w))
   \<and> \<not> gpsEnabled (s_location_data (onStateChange e LOCATIONS_SERVICE_DISABLED w))"
  by (simp add: onStateChange_def disableSat_def disableGPS_def Let_def)

end
